theory Spec2Isabelle
  imports Complex_Main
begin

section \<open>Time series test errors and cross-validation\<close>

text \<open>
  The program is the notebook ``Time Series Test Errors and CV'': a loop that builds the
  cross-validation index lists \<^verbatim>\<open>test_index\<close> and \<^verbatim>\<open>train_index\<close>, the
  functions \<^verbatim>\<open>get_rmse\<close>, \<^verbatim>\<open>naive_forecast\<close>, \<^verbatim>\<open>avg_forecast\<close> and
  \<^verbatim>\<open>naive_seasonal_forecast\<close>, three loops that collect one RMSE per split, and the
  final \<^verbatim>\<open>np.mean\<close> of each collection.

  Modelling decisions.
  \<^item> The observations of a column (\<^verbatim>\<open>train.cases\<close>) are finite numbers, modelled as
    \<^typ>\<open>real\<close>, and a computed number is a value of type \<open>npfloat\<close>: NaN (the mean of an
    empty column, 0.0/0) or a finite number. The arithmetic on finite numbers is the exact
    one. numpy and pandas compute in float64 (and in int64 for an integer column): they
    round every result, overflow to \<open>inf\<close>, wrap int64 products, and sum in an order of
    their own. The finite value that the model gives to a sum, a mean, a quotient or a
    square root is therefore an idealisation of the computed one. The theorems of this
    theory are about windows, lengths, which values are selected, NaN and exceptions,
    where the model follows the code step by step; where one of them displays the mean
    in the result of \<^verbatim>\<open>avg_forecast\<close>, what it establishes of the code is that the
    result is not NaN and has that many elements.
  \<^item> A data frame is the list of its column's values; its index labels are the positions
    \<open>0, ..., N - 1\<close>, so \<^verbatim>\<open>measles_train.index\<close> is \<open>[0..<N]\<close>.
  \<^item> The notebook fixes the horizon to the literal 24; the model takes it as the
    parameter \<open>H\<close>.
  \<^item> Python exceptions are values of type \<open>error\<close>; a function that can raise returns
    \<open>error + 'a\<close>.
\<close>

subsection \<open>Errors and numbers\<close>

datatype error = IndexError | ValueError | ZeroDivisionError

datatype npfloat = NaN | Fin real

fun np_sub :: "npfloat \<Rightarrow> npfloat \<Rightarrow> npfloat" where
  "np_sub (Fin a) (Fin b) = Fin (a - b)"
| "np_sub _ _ = NaN"

fun np_add :: "npfloat \<Rightarrow> npfloat \<Rightarrow> npfloat" where
  "np_add (Fin a) (Fin b) = Fin (a + b)"
| "np_add _ _ = NaN"

fun np_mul :: "npfloat \<Rightarrow> npfloat \<Rightarrow> npfloat" where
  "np_mul (Fin a) (Fin b) = Fin (a * b)"
| "np_mul _ _ = NaN"

fun np_power :: "npfloat \<Rightarrow> nat \<Rightarrow> npfloat" where
  "np_power (Fin a) n = Fin (a ^ n)"
| "np_power NaN n = NaN"

text \<open>\<^verbatim>\<open>np.sqrt\<close> of a negative number is NaN.\<close>

fun np_sqrt :: "npfloat \<Rightarrow> npfloat" where
  "np_sqrt (Fin a) = (if a < 0 then NaN else Fin (sqrt a))"
| "np_sqrt NaN = NaN"

text \<open>
  The sum of an array (as \<^verbatim>\<open>np.mean\<close> takes it of a list of numbers): the sum of an
  empty array is 0, and a NaN element makes the sum NaN.
\<close>

fun np_sum :: "npfloat list \<Rightarrow> npfloat" where
  "np_sum [] = Fin 0"
| "np_sum (x # xs) = np_add x (np_sum xs)"

text \<open>
  \<^verbatim>\<open>np.sum\<close> of a pandas Series is \<^verbatim>\<open>Series.sum()\<close>, which skips the NaN elements: the
  sum of a Series without a finite element is 0.
\<close>

fun pd_sum :: "npfloat list \<Rightarrow> npfloat" where
  "pd_sum [] = Fin 0"
| "pd_sum (NaN # xs) = pd_sum xs"
| "pd_sum (Fin a # xs) = np_add (Fin a) (pd_sum xs)"

text \<open>Division of a number by a positive length (the callers treat length 0 themselves).\<close>

fun np_div_len :: "npfloat \<Rightarrow> nat \<Rightarrow> npfloat" where
  "np_div_len (Fin a) n = Fin (a / real n)"
| "np_div_len NaN n = NaN"

text \<open>\<^verbatim>\<open>np.ones(n)\<close> and the product of a scalar with an array.\<close>

definition np_ones :: "nat \<Rightarrow> npfloat list" where
  "np_ones n = replicate n (Fin 1)"

definition np_scale :: "npfloat \<Rightarrow> npfloat list \<Rightarrow> npfloat list" where
  "np_scale s xs = map (np_mul s) xs"

text \<open>
  \<^verbatim>\<open>np.mean\<close> of a list of numbers: NaN for the empty list (numpy warns, it does not
  raise), the sum over the length otherwise.
\<close>

definition np_mean :: "npfloat list \<Rightarrow> npfloat" where
  "np_mean xs = (if xs = [] then NaN else np_div_len (np_sum xs) (length xs))"

text \<open>
  \<^verbatim>\<open>Series.mean()\<close> of a column of finite numbers: NaN for the empty column (pandas does
  not raise); for a non-empty column the exact arithmetic mean, which idealises the
  float64 quotient that pandas returns.
\<close>

definition pd_mean :: "real list \<Rightarrow> npfloat" where
  "pd_mean xs = (if xs = [] then NaN else Fin (sum_list xs / real (length xs)))"

subsection \<open>Python indexing and slicing\<close>

text \<open>
  \<^verbatim>\<open>xs[i]\<close>: a negative index counts from the end, an index out of range raises
  IndexError.
\<close>

definition py_get :: "'a list \<Rightarrow> int \<Rightarrow> error + 'a" where
  "py_get xs i =
     (if 0 \<le> i \<and> i < int (length xs) then Inr (xs ! nat i)
      else if i < 0 \<and> - int (length xs) \<le> i then Inr (xs ! nat (int (length xs) + i))
      else Inl IndexError)"

text \<open>
  A slice bound: a negative bound counts from the end, and every bound is clamped to
  \<open>[0, n]\<close>; a slice never raises.
\<close>

definition slice_bound :: "nat \<Rightarrow> int \<Rightarrow> nat" where
  "slice_bound n a = (if a < 0 then nat (max (a + int n) 0) else min (nat a) n)"

text \<open>\<^verbatim>\<open>xs[a:b]\<close>, with \<open>None\<close> for an omitted bound.\<close>

definition py_slice :: "'a list \<Rightarrow> int option \<Rightarrow> int option \<Rightarrow> 'a list" where
  "py_slice xs a b =
     (let n = length xs;
          s = (case a of None \<Rightarrow> 0 | Some i \<Rightarrow> slice_bound n i);
          e = (case b of None \<Rightarrow> n | Some j \<Rightarrow> slice_bound n j)
      in take (e - s) (drop s xs))"

text \<open>
  \<^verbatim>\<open>df.iloc[idx,]\<close> with a list of positions: the rows at these positions, in order;
  a position out of range raises IndexError.
\<close>

definition iloc :: "'a list \<Rightarrow> nat list \<Rightarrow> error + 'a list" where
  "iloc df idx =
     (if list_all (\<lambda>p. p < length df) idx then Inr (map (\<lambda>p. df ! p) idx)
      else Inl IndexError)"

subsection \<open>The cross-validation splits\<close>

text \<open>
  One pass of the loop body for the loop variable \<open>i\<close>; the state is the pair
  \<open>(test_index, train_index)\<close>, and each pass appends one entry to both.
  \<^verbatim>\<open>
  if i > 1:
      test = measles_train.index[-24*i:-24*(i-1)]
  else:
      test = measles_train.index[-24:]
  train = measles_train.index[:-24*i]
  test_index.append(test)
  train_index.append(train)
  \<close>
\<close>

definition cv_body ::
  "nat \<Rightarrow> nat list \<Rightarrow> nat list list \<times> nat list list \<Rightarrow> nat \<Rightarrow> nat list list \<times> nat list list"
where
  "cv_body H index st i =
     (let test = (if i > 1
                  then py_slice index (Some (- (int H * int i))) (Some (- (int H * (int i - 1))))
                  else py_slice index (Some (- int H)) None);
          train = py_slice index None (Some (- (int H * int i)))
      in (fst st @ [test], snd st @ [train]))"

text \<open>
  The loop \<^verbatim>\<open>for i in range(1,int(len(measles_train)/24))\<close> over a frame of \<open>N\<close> rows.
  The quotient \<^verbatim>\<open>len(measles_train)/H\<close> raises ZeroDivisionError for \<open>H = 0\<close>; otherwise
  \<^verbatim>\<open>int\<close> truncates it to \<open>N div H\<close>. The result is \<open>(test_index, train_index)\<close>.
\<close>

definition cv_splits :: "nat \<Rightarrow> nat \<Rightarrow> error + (nat list list \<times> nat list list)" where
  "cv_splits H N =
     (if H = 0 then Inl ZeroDivisionError
      else Inr (foldl (cv_body H [0..<N]) ([], []) [1..<N div H]))"

subsection \<open>The error measure and the forecasts\<close>

text \<open>
  \<^verbatim>\<open>pred - actual\<close>, element by element. Operands of equal length are paired; a
  one-element \<open>pred\<close> is broadcast over \<open>actual\<close>; any other pair of lengths raises
  ValueError.
\<close>

definition np_subtract :: "npfloat list \<Rightarrow> npfloat list \<Rightarrow> error + npfloat list" where
  "np_subtract xs ys =
     (if length xs = length ys then Inr (map2 np_sub xs ys)
      else if length xs = 1 then Inr (map (np_sub (hd xs)) ys)
      else Inl ValueError)"

text \<open>
  \<^verbatim>\<open>
  def get_rmse(pred,actual):
      res = pred - actual
      return np.sqrt(np.sum(np.power(res,2))/len(res))
  \<close>
  \<open>actual\<close> is a column of the frame, so \<open>res\<close> and its squares are pandas Series and
  the sum skips their NaN elements, while \<open>len(res)\<close> counts every element. For an empty
  \<open>res\<close> the sum is 0.0 and 0.0/0 is NaN (numpy warns, it does not raise). The finite
  value is the exact one, which idealises the float64 (or wrapped int64) computation.
\<close>

definition get_rmse :: "npfloat list \<Rightarrow> npfloat list \<Rightarrow> error + npfloat" where
  "get_rmse pred actual =
     (case np_subtract pred actual of
        Inl e \<Rightarrow> Inl e
      | Inr res \<Rightarrow>
          Inr (np_sqrt (if length res = 0 then NaN
                        else np_div_len (pd_sum (map (\<lambda>r. np_power r 2) res)) (length res))))"

text \<open>
  \<^verbatim>\<open>
  def naive_forecast(train,test):
      return list(train.cases)[-1]*np.ones(len(test))
  \<close>
\<close>

definition naive_forecast :: "real list \<Rightarrow> 'b list \<Rightarrow> error + npfloat list" where
  "naive_forecast train test =
     (case py_get train (- 1) of
        Inl e \<Rightarrow> Inl e
      | Inr v \<Rightarrow> Inr (np_scale (Fin v) (np_ones (length test))))"

text \<open>
  \<^verbatim>\<open>
  def avg_forecast(train,test):
      return train.cases.mean()*np.ones(len(test))
  \<close>
\<close>

definition avg_forecast :: "real list \<Rightarrow> 'b list \<Rightarrow> error + npfloat list" where
  "avg_forecast train test = Inr (np_scale (pd_mean train) (np_ones (length test)))"

text \<open>
  \<^verbatim>\<open>
  def naive_seasonal_forecast(train,test):
      return list(train.cases)[-len(test):]
  \<close>
\<close>

definition naive_seasonal_forecast :: "real list \<Rightarrow> 'b list \<Rightarrow> error + npfloat list" where
  "naive_seasonal_forecast train test =
     Inr (map Fin (py_slice train (Some (- int (length test))) None))"

subsection \<open>The per-split errors and their mean\<close>

text \<open>
  \<^verbatim>\<open>
  for i,j in zip(train_index,test_index):
      pred = forecast(measles_train.iloc[i,],measles_train.iloc[j,])
      rmses.append(get_rmse(pred,measles_train.iloc[j,].cases))
  \<close>
  The first exception ends the loop.
\<close>

fun cv_rmses ::
  "(real list \<Rightarrow> real list \<Rightarrow> error + npfloat list) \<Rightarrow> real list \<Rightarrow> (nat list \<times> nat list) list
     \<Rightarrow> error + npfloat list"
where
  "cv_rmses forecast df [] = Inr []"
| "cv_rmses forecast df ((i, j) # rest) =
     (case iloc df i of
        Inl e \<Rightarrow> Inl e
      | Inr train \<Rightarrow>
          (case iloc df j of
             Inl e \<Rightarrow> Inl e
           | Inr test \<Rightarrow>
               (case forecast train test of
                  Inl e \<Rightarrow> Inl e
                | Inr pred \<Rightarrow>
                    (case get_rmse pred (map Fin test) of
                       Inl e \<Rightarrow> Inl e
                     | Inr r \<Rightarrow>
                         (case cv_rmses forecast df rest of
                            Inl e \<Rightarrow> Inl e
                          | Inr rs \<Rightarrow> Inr (r # rs))))))"

text \<open>
  The whole evaluation of one method on a series: the splits, the list of per-split
  errors and \<^verbatim>\<open>np.mean\<close> of that list.
\<close>

definition cv_evaluate ::
  "(real list \<Rightarrow> real list \<Rightarrow> error + npfloat list) \<Rightarrow> nat \<Rightarrow> real list
     \<Rightarrow> error + (npfloat list \<times> npfloat)"
where
  "cv_evaluate forecast H series =
     (case cv_splits H (length series) of
        Inl e \<Rightarrow> Inl e
      | Inr (test_index, train_index) \<Rightarrow>
          (case cv_rmses forecast series (zip train_index test_index) of
             Inl e \<Rightarrow> Inl e
           | Inr rmses \<Rightarrow> Inr (rmses, np_mean rmses)))"

definition avg_rmses :: "nat \<Rightarrow> real list \<Rightarrow> error + (npfloat list \<times> npfloat)" where
  "avg_rmses = cv_evaluate avg_forecast"

definition naive_rmses :: "nat \<Rightarrow> real list \<Rightarrow> error + (npfloat list \<times> npfloat)" where
  "naive_rmses = cv_evaluate naive_forecast"

definition seasonal_naive_rmses :: "nat \<Rightarrow> real list \<Rightarrow> error + (npfloat list \<times> npfloat)" where
  "seasonal_naive_rmses = cv_evaluate naive_seasonal_forecast"

section \<open>Slices of the index and the shape of the splits\<close>

lemma take_drop_upt:
  assumes "e \<le> n"
  shows "take (e - s) (drop s [0..<n]) = [s..<e]"
proof (rule nth_equalityI)
  show "length (take (e - s) (drop s [0..<n])) = length [s..<e]"
    using assms by simp
next
  fix i assume "i < length (take (e - s) (drop s [0..<n]))"
  then show "take (e - s) (drop s [0..<n]) ! i = [s..<e] ! i"
    using assms by simp
qed

lemma slice_bound_neg:
  assumes "0 < m"
  shows "slice_bound N (- int m) = N - m"
proof -
  have "nat (max (- int m + int N) 0) = N - m"
    by (cases "m \<le> N") (simp_all add: max_def nat_diff_distrib')
  then show ?thesis
    using assms by (simp add: slice_bound_def)
qed

lemma slice_train:
  assumes "0 < H * i"
  shows "py_slice [0..<N] None (Some (- (int H * int i))) = [0..<N - H * i]"
proof -
  have "slice_bound N (- (int H * int i)) = N - H * i"
    using slice_bound_neg [OF assms, of N] by simp
  moreover have "take (N - H * i - 0) (drop 0 [0..<N]) = [0..<N - H * i]"
    by (rule take_drop_upt) simp
  ultimately show ?thesis
    by (simp add: py_slice_def del: take_upt drop_upt)
qed

lemma slice_test_first:
  assumes "0 < H"
  shows "py_slice [0..<N] (Some (- int H)) None = [N - H..<N]"
proof -
  have "slice_bound N (- int H) = N - H"
    using slice_bound_neg [OF assms] .
  moreover have "take (N - (N - H)) (drop (N - H) [0..<N]) = [N - H..<N]"
    by (rule take_drop_upt) simp
  ultimately show ?thesis
    by (simp add: py_slice_def del: take_upt drop_upt)
qed

lemma slice_test_later:
  assumes "0 < H" and "1 < i"
  shows "py_slice [0..<N] (Some (- (int H * int i))) (Some (- (int H * (int i - 1))))
           = [N - H * i..<N - H * (i - 1)]"
proof -
  have "0 < H * i" using assms by simp
  from slice_bound_neg [OF this, of N]
  have a: "slice_bound N (- (int H * int i)) = N - H * i" by simp
  have e: "int H * (int i - 1) = int (H * (i - 1))"
    using assms by (simp add: of_nat_diff)
  have "0 < H * (i - 1)" using assms by simp
  from slice_bound_neg [OF this, of N]
  have b: "slice_bound N (- (int H * (int i - 1))) = N - H * (i - 1)"
    unfolding e .
  have c: "take (N - H * (i - 1) - (N - H * i)) (drop (N - H * i) [0..<N])
             = [N - H * i..<N - H * (i - 1)]"
    by (rule take_drop_upt) simp
  show ?thesis
    unfolding py_slice_def Let_def option.case a b length_upt diff_zero
    by (rule c)
qed

lemma cv_body_eq:
  assumes "0 < H" and "0 < i"
  shows "cv_body H [0..<N] st i =
           (fst st @ [[N - H * i..<N - H * (i - 1)]], snd st @ [[0..<N - H * i]])"
proof -
  have tr: "py_slice [0..<N] None (Some (- (int H * int i))) = [0..<N - H * i]"
    using assms by (intro slice_train) simp
  show ?thesis
  proof (cases "1 < i")
    case True
    then show ?thesis
      using slice_test_later [OF assms(1) True, of N] tr by (simp add: cv_body_def)
  next
    case False
    with assms have "i = 1" by simp
    then show ?thesis
      using slice_test_first [OF assms(1), of N] tr by (simp add: cv_body_def)
  qed
qed

lemma cv_loop_eq:
  assumes "0 < H" and "\<forall>i \<in> set is. 0 < i"
  shows "foldl (cv_body H [0..<N]) st is =
           (fst st @ map (\<lambda>i. [N - H * i..<N - H * (i - 1)]) is,
            snd st @ map (\<lambda>i. [0..<N - H * i]) is)"
  using assms(2)
proof (induction "is" arbitrary: st)
  case Nil
  then show ?case by simp
next
  case (Cons i "is")
  then show ?case by (simp add: cv_body_eq [OF assms(1)])
qed

lemma cv_splits_eq:
  assumes "0 < H"
  shows "cv_splits H N =
           Inr (map (\<lambda>i. [N - H * i..<N - H * (i - 1)]) [1..<N div H],
                map (\<lambda>i. [0..<N - H * i]) [1..<N div H])"
  using assms by (simp add: cv_splits_def cv_loop_eq)

lemma split_bound:
  fixes H N k :: nat
  assumes "0 < H" and "k < N div H - 1"
  shows "H * (k + 1) + H + N mod H \<le> N"
proof -
  have "k + 2 \<le> N div H" using assms(2) by simp
  then have m: "H * (k + 2) \<le> H * (N div H)" by (rule mult_le_mono2)
  have e: "H * (N div H) + N mod H = N" by simp
  have d: "H * (k + 2) = H * (k + 1) + H" by (simp add: algebra_simps)
  show ?thesis using m e d by linarith
qed

lemma cv_splits_nth:
  assumes "0 < H" and "k < N div H - 1"
  shows "\<exists>tests trains. cv_splits H N = Inr (tests, trains)
           \<and> length tests = N div H - 1 \<and> length trains = N div H - 1
           \<and> tests ! k = [N - H * (k + 1)..<N - H * k]
           \<and> trains ! k = [0..<N - H * (k + 1)]"
  using assms by (simp add: cv_splits_eq nth_map_upt add.commute)

section \<open>Facts about the forecasts and the error measure\<close>

lemma py_get_last:
  assumes "xs \<noteq> []"
  shows "py_get xs (- 1) = Inr (last xs)"
proof -
  have p: "Suc 0 \<le> length xs" using assms by (cases xs) simp_all
  then have "nat (int (length xs) + - 1) = length xs - 1" by simp
  then show ?thesis
    using assms p by (simp add: py_get_def last_conv_nth)
qed

lemma py_get_empty: "py_get [] i = Inl IndexError"
  by (simp add: py_get_def)

lemma np_scale_ones_Fin: "np_scale (Fin v) (np_ones n) = replicate n (Fin v)"
  by (simp add: np_scale_def np_ones_def)

lemma np_scale_ones_NaN: "np_scale NaN (np_ones n) = replicate n NaN"
  by (simp add: np_scale_def np_ones_def)

lemma naive_forecast_nonempty:
  assumes "train \<noteq> []"
  shows "naive_forecast train test = Inr (replicate (length test) (Fin (last train)))"
  by (simp add: naive_forecast_def py_get_last [OF assms] np_scale_ones_Fin)

lemma avg_forecast_nonempty:
  assumes "train \<noteq> []"
  shows "avg_forecast train test =
           Inr (replicate (length test) (Fin (sum_list train / real (length train))))"
  using assms by (simp add: avg_forecast_def pd_mean_def np_scale_ones_Fin)

lemma py_slice_last:
  assumes "0 < h"
  shows "py_slice xs (Some (- int h)) None = drop (length xs - h) xs"
  by (simp add: py_slice_def slice_bound_neg [OF assms])

lemma naive_seasonal_forecast_eq:
  assumes "0 < length test"
  shows "naive_seasonal_forecast train test =
           Inr (map Fin (drop (length train - length test) train))"
  by (simp add: naive_seasonal_forecast_def py_slice_last [OF assms])

lemma iloc_upt:
  assumes "e \<le> length df"
  shows "iloc df [s..<e] = Inr (take (e - s) (drop s df))"
proof -
  have "list_all (\<lambda>p. p < length df) [s..<e]"
    using assms by (simp add: list_all_iff)
  moreover have "map (\<lambda>p. df ! p) [s..<e] = take (e - s) (drop s df)"
    using assms by (intro nth_equalityI) (simp_all add: add.commute)
  ultimately show ?thesis by (simp add: iloc_def)
qed

section \<open>The rolling-origin splits\<close>

text \<open>
  Claim C1. For a series of \<open>N\<close> rows and a horizon \<open>H\<close> with \<open>1 \<le> H < N\<close>, the split
  number \<open>k\<close> of the loop (loop variable \<open>i = k + 1\<close>) has the train window
  \<open>[0, N - H (k + 1))\<close> and the test window \<open>[N - H (k + 1), N - H k)\<close>. No subtraction
  truncates (\<open>H (k + 1) + H \<le> N\<close>), every test window has exactly \<open>H\<close> positions, and
  the test window starts where the train window ends: together they are the prefix
  \<open>[0, N - H k)\<close>.
\<close>

theorem cv_splits_windows:
  assumes "1 \<le> H" and "H < N" and "k < N div H - 1"
  shows "\<exists>tests trains. cv_splits H N = Inr (tests, trains)
           \<and> length tests = N div H - 1 \<and> length trains = N div H - 1
           \<and> H * (k + 1) + H \<le> N
           \<and> trains ! k = [0..<N - H * (k + 1)]
           \<and> tests ! k = [N - H * (k + 1)..<N - H * k]
           \<and> length (tests ! k) = H
           \<and> trains ! k @ tests ! k = [0..<N - H * k]"
proof -
  have H: "0 < H" using assms(1) by simp
  from cv_splits_nth [OF H assms(3)] obtain tests trains where
    s: "cv_splits H N = Inr (tests, trains)" and
    l: "length tests = N div H - 1" "length trains = N div H - 1" and
    t: "tests ! k = [N - H * (k + 1)..<N - H * k]" and
    r: "trains ! k = [0..<N - H * (k + 1)]"
    by blast
  have b: "H * (k + 1) + H \<le> N" using split_bound [OF H assms(3)] by simp
  then have len: "length (tests ! k) = H" unfolding t by simp
  have app: "trains ! k @ tests ! k = [0..<N - H * k]"
    unfolding t r by (rule nth_equalityI) (auto simp add: nth_append)
  show ?thesis using s l t r b len app assms(3) by simp
qed

theorem cv_splits_windows_witness:
  "(1::nat) \<le> 2 \<and> (2::nat) < 9 \<and> (1::nat) < 9 div 2 - 1
   \<and> (\<exists>tests trains. cv_splits 2 9 = Inr (tests, trains)
         \<and> trains ! 1 = [0, 1, 2, 3, 4] \<and> tests ! 1 = [5, 6])"
proof -
  have a: "(1::nat) \<le> 2" and b: "(2::nat) < 9" and c: "(1::nat) < 9 div 2 - 1"
    by simp_all
  from cv_splits_windows [OF a b c] obtain tests trains where
    s: "cv_splits 2 9 = Inr (tests, trains)" and
    r: "trains ! 1 = [0..<9 - 2 * (1 + 1)]" and
    t: "tests ! 1 = [9 - 2 * (1 + 1)..<9 - 2 * 1]"
    by blast
  have r': "[0..<9 - 2 * (1 + 1)] = [0, 1, 2, 3, 4::nat]" by code_simp
  have t': "[9 - 2 * (1 + 1)..<9 - 2 * 1] = [5, 6::nat]" by code_simp
  have "\<exists>tests trains. cv_splits 2 9 = Inr (tests, trains)
          \<and> trains ! 1 = [0, 1, 2, 3, 4] \<and> tests ! 1 = [5, 6]"
    using s r t unfolding r' t' by blast
  then show ?thesis using a b c by blast
qed

text \<open>
  Claim C2. For \<open>1 \<le> H < N\<close> the loop produces \<open>floor (N / H) - 1\<close> splits (as many test
  windows as train windows), without raising; for \<open>N < 2 H\<close> both lists are empty.
\<close>

theorem cv_splits_count:
  assumes "1 \<le> H" and "H < N"
  shows "\<exists>tests trains. cv_splits H N = Inr (tests, trains)
           \<and> int (length tests) = int (N div H) - 1
           \<and> length trains = length tests
           \<and> (N < 2 * H \<longrightarrow> tests = [] \<and> trains = [])"
proof -
  have H: "0 < H" using assms(1) by simp
  have q: "1 \<le> N div H" using assms H by (simp add: div_greater_zero_iff Suc_leI)
  have z: "N div H - 1 = 0" if "N < 2 * H"
  proof -
    have "N div H < 2" using that by (rule less_mult_imp_div_less)
    then show ?thesis by simp
  qed
  show ?thesis using q z by (auto simp add: cv_splits_eq [OF H] of_nat_diff)
qed

theorem cv_splits_count_witness:
  "(1::nat) \<le> 2 \<and> (2::nat) < 3 \<and> (3::nat) < 2 * 2 \<and> cv_splits 2 3 = Inr ([], [])
   \<and> int (length ([]::nat list list)) = int (3 div 2) - 1"
  using cv_splits_count [of 2 3] by auto

text \<open>
  Claim C6, as amended. For \<open>1 \<le> H < N\<close> with \<open>N mod H \<noteq> 0\<close>, every position \<open>p\<close> of
  the leftover prefix (\<open>p < N mod H\<close>) belongs to the train window of every split, the
  oldest one included, since each train window starts at position 0; it belongs to no
  test window. The loop gives exactly \<open>N div H - 1\<close> windows of each kind, so \<open>k\<close> and
  \<open>j\<close> range over all of them.
\<close>

theorem leftover_prefix_in_train:
  assumes "1 \<le> H" and "H < N" and "k < N div H - 1" and "j < N div H - 1"
    and "p < N mod H"
  shows "\<exists>tests trains. cv_splits H N = Inr (tests, trains)
           \<and> length trains = N div H - 1 \<and> length tests = N div H - 1
           \<and> p \<in> set (trains ! k) \<and> p \<notin> set (tests ! j)"
proof -
  have H: "0 < H" using assms(1) by simp
  have bk: "H * (k + 1) + H + N mod H \<le> N" by (rule split_bound [OF H assms(3)])
  have bj: "H * (j + 1) + H + N mod H \<le> N" by (rule split_bound [OF H assms(4)])
  have "p < N - H * (k + 1)" using bk assms(5) by linarith
  moreover have "p < N - H * (j + 1)" using bj assms(5) by linarith
  ultimately show ?thesis
    using assms(3,4) by (simp add: cv_splits_eq [OF H] nth_map_upt add.commute)
qed

theorem leftover_prefix_in_train_witness:
  "(1::nat) \<le> 2 \<and> (2::nat) < 5 \<and> (0::nat) < 5 div 2 - 1 \<and> (0::nat) < 5 mod 2
   \<and> (\<exists>tests trains. cv_splits 2 5 = Inr (tests, trains)
         \<and> 0 \<in> set (trains ! 0) \<and> 0 \<notin> set (tests ! 0))"
proof -
  have a: "(1::nat) \<le> 2" and b: "(2::nat) < 5" and c: "(0::nat) < 5 div 2 - 1"
    and d: "(0::nat) < 5 mod 2"
    by simp_all
  from leftover_prefix_in_train [OF a b c c d] show ?thesis
    using a b c d by blast
qed

text \<open>
  Claim C6 as stated fails: for \<open>N = 5\<close> and \<open>H = 2\<close> the leftover prefix is position 0,
  and the only train window is \<open>[0, 1, 2]\<close>, which contains it.
\<close>

theorem leftover_prefix_counterexample:
  "(5::nat) mod 2 = 1 \<and> cv_splits 2 5 = Inr ([[3, 4]], [[0, 1, 2]])
   \<and> (0::nat) \<in> set (hd (snd (projr (cv_splits 2 5))))"
proof -
  have "cv_splits 2 5 = Inr ([[3, 4]], [[0, 1, 2]])" by code_simp
  then show ?thesis by simp
qed

text \<open>
  Claim C10. For a series of \<open>N\<close> values and \<open>1 \<le> H < N\<close>, the rows selected by the train
  window of every split \<open>k\<close> number \<open>N - H (k + 1) \<ge> H + N mod H\<close>, so the window is not
  empty, and the test rows number \<open>H\<close>. On these rows the seasonal naive forecast is
  the last \<open>H\<close> train values, of length exactly \<open>H\<close>, and the average and the naive
  forecasts return their \<open>H\<close> values without NaN and without raising.
\<close>

theorem train_window_has_history:
  assumes "1 \<le> H" and "H < length series" and "k < length series div H - 1"
  shows "\<exists>tests trains train test.
           cv_splits H (length series) = Inr (tests, trains)
           \<and> length trains = length series div H - 1
           \<and> length tests = length series div H - 1
           \<and> iloc series (trains ! k) = Inr train
           \<and> iloc series (tests ! k) = Inr test
           \<and> length train = length series - H * (k + 1)
           \<and> H + length series mod H \<le> length train
           \<and> train \<noteq> []
           \<and> length test = H
           \<and> naive_seasonal_forecast train test = Inr (map Fin (drop (length train - H) train))
           \<and> length (drop (length train - H) train) = H
           \<and> avg_forecast train test
                = Inr (replicate H (Fin (sum_list train / real (length train))))
           \<and> naive_forecast train test = Inr (replicate H (Fin (last train)))"
proof -
  define N where "N = length series"
  have H: "0 < H" using assms(1) by simp
  have k: "k < N div H - 1" using assms(3) by (simp add: N_def)
  have b: "H * (k + 1) + H + N mod H \<le> N" by (rule split_bound [OF H k])
  from cv_splits_nth [OF H k] obtain tests trains where
    s: "cv_splits H N = Inr (tests, trains)" and
    l: "length tests = N div H - 1" "length trains = N div H - 1" and
    t: "tests ! k = [N - H * (k + 1)..<N - H * k]" and
    r: "trains ! k = [0..<N - H * (k + 1)]"
    by blast
  define train where "train = take (N - H * (k + 1) - 0) (drop 0 series)"
  define test where "test = take (N - H * k - (N - H * (k + 1))) (drop (N - H * (k + 1)) series)"
  have it: "iloc series (trains ! k) = Inr train"
    unfolding r train_def by (rule iloc_upt) (simp add: N_def)
  have ie: "iloc series (tests ! k) = Inr test"
    unfolding t test_def by (rule iloc_upt) (simp add: N_def)
  have lt: "length train = N - H * (k + 1)" by (simp add: train_def N_def)
  have le: "length test = H" using b by (simp add: test_def N_def)
  have ge: "H + N mod H \<le> length train" using b lt by linarith
  then have ne: "train \<noteq> []" using H by auto
  have tp: "0 < length test" using le H by simp
  have ns: "naive_seasonal_forecast train test = Inr (map Fin (drop (length train - H) train))"
    using naive_seasonal_forecast_eq [OF tp, of train] le by simp
  have ld: "length (drop (length train - H) train) = H" using ge by simp
  have av: "avg_forecast train test
              = Inr (replicate H (Fin (sum_list train / real (length train))))"
    using avg_forecast_nonempty [OF ne, of test] le by simp
  have na: "naive_forecast train test = Inr (replicate H (Fin (last train)))"
    using naive_forecast_nonempty [OF ne, of test] le by simp
  show ?thesis
    unfolding N_def [symmetric]
    using s l it ie lt ge ne le ns ld av na by blast
qed

theorem train_window_has_history_witness:
  "(1::nat) \<le> 2 \<and> 2 < length [1, 2, 3, 4, 5::real]
   \<and> 0 < length [1, 2, 3, 4, 5::real] div 2 - 1
   \<and> (\<exists>tests trains train test.
         cv_splits 2 (length [1, 2, 3, 4, 5::real]) = Inr (tests, trains)
         \<and> iloc [1, 2, 3, 4, 5::real] (trains ! 0) = Inr train
         \<and> iloc [1, 2, 3, 4, 5::real] (tests ! 0) = Inr test
         \<and> train \<noteq> [] \<and> length test = 2
         \<and> length (drop (length train - 2) train) = 2)"
proof -
  have a: "(1::nat) \<le> 2" and b: "2 < length [1, 2, 3, 4, 5::real]"
    and c: "0 < length [1, 2, 3, 4, 5::real] div 2 - 1"
    by simp_all
  from train_window_has_history [OF a b c] show ?thesis
    using a b c by blast
qed

section \<open>The baseline forecasts\<close>

text \<open>
  Claim C4, as amended. For a test block of length \<open>H \<ge> 1\<close> the seasonal naive forecast
  never raises. When the train window has at least \<open>H\<close> values the forecast has length
  \<open>H\<close> and its value at offset \<open>i\<close> is the train value at position
  \<open>len(train) - H + i\<close>. When the train window is shorter than \<open>H\<close> the slice is clamped:
  the forecast is the whole train window, of length \<open>len(train) < H\<close>.
\<close>

theorem naive_seasonal_forecast_values:
  assumes "1 \<le> length test"
  shows "\<exists>f. naive_seasonal_forecast train test = Inr f
           \<and> (length test \<le> length train \<longrightarrow>
                length f = length test
                \<and> (\<forall>i<length test. f ! i = Fin (train ! (length train - length test + i))))
           \<and> (length train < length test \<longrightarrow> f = map Fin train)"
proof -
  have "0 < length test" using assms by (cases test) simp_all
  from naive_seasonal_forecast_eq [OF this, of train]
  show ?thesis by simp
qed

theorem naive_seasonal_forecast_values_witness:
  "(1::nat) \<le> length [0, 0, 0::real]
   \<and> length [0, 0, 0::real] \<le> length [1, 2, 3, 4, 5, 6::real]
   \<and> (\<exists>f. naive_seasonal_forecast [1, 2, 3, 4, 5, 6] [0, 0, 0::real] = Inr f
         \<and> length f = 3 \<and> f ! 0 = Fin 4 \<and> f ! 1 = Fin 5 \<and> f ! 2 = Fin 6)
   \<and> length [1, 2::real] < length [0, 0, 0::real]
   \<and> naive_seasonal_forecast [1, 2] [0, 0, 0::real] = Inr [Fin 1, Fin 2]"
proof -
  have a: "(1::nat) \<le> length [0, 0, 0::real]" by simp
  from naive_seasonal_forecast_values [OF a, of "[1, 2, 3, 4, 5, 6]"] obtain f where
    f: "naive_seasonal_forecast [1, 2, 3, 4, 5, 6] [0, 0, 0::real] = Inr f" and
    l: "length f = 3" and
    v: "\<forall>i<3. f ! i = Fin ([1, 2, 3, 4, 5, 6] ! (3 + i))"
    by auto
  have "f ! 0 = Fin 4" "f ! 1 = Fin 5" "f ! 2 = Fin 6" using v by simp_all
  with f l have one: "\<exists>f. naive_seasonal_forecast [1, 2, 3, 4, 5, 6] [0, 0, 0::real] = Inr f
         \<and> length f = 3 \<and> f ! 0 = Fin 4 \<and> f ! 1 = Fin 5 \<and> f ! 2 = Fin 6"
    by blast
  from naive_seasonal_forecast_values [OF a, of "[1, 2]"]
  have two: "naive_seasonal_forecast [1, 2] [0, 0, 0::real] = Inr [Fin 1, Fin 2]"
    by auto
  show ?thesis using one two by simp
qed

text \<open>
  Claim C4 as stated fails: with two train values and a test block of length three the
  function returns the two train values; it does not fail.
\<close>

theorem naive_seasonal_forecast_short_counterexample:
  "naive_seasonal_forecast [1, 2] [0, 0, 0::real] = Inr [Fin 1, Fin 2]"
  by (simp add: naive_seasonal_forecast_def py_slice_def slice_bound_def)

text \<open>
  Claim C9, as amended. On an empty train window the naive forecast raises IndexError
  (the index \<open>-1\<close> of an empty list), whatever the test length; the average forecast
  raises nothing and returns \<open>H\<close> copies of NaN, the mean of an empty column.
\<close>

theorem forecast_empty_window:
  "naive_forecast [] test = Inl IndexError
   \<and> avg_forecast [] test = Inr (replicate (length test) NaN)"
  by (simp add: naive_forecast_def py_get_empty avg_forecast_def pd_mean_def np_scale_ones_NaN)

text \<open>
  Claim C9 as stated fails for the average forecast: on an empty train window and a
  test block of length two it returns two NaN values.
\<close>

theorem avg_forecast_empty_counterexample:
  "avg_forecast [] [0, 0::real] = Inr [NaN, NaN]"
  by (simp add: avg_forecast_def pd_mean_def np_scale_def np_ones_def numeral_2_eq_2)

section \<open>The evaluation of a method\<close>

text \<open>
  Claim C8, as amended. For \<open>H \<ge> 1\<close> and a series shorter than \<open>2 H\<close> there is no split,
  and the evaluation of any method raises nothing: the list of per-split errors is
  empty and its \<^verbatim>\<open>np.mean\<close> is NaN.
\<close>

theorem no_splits_mean_nan:
  assumes "1 \<le> H" and "length series < 2 * H"
  shows "cv_evaluate forecast H series = Inr ([], NaN)"
proof -
  have H: "0 < H" using assms(1) by simp
  have "length series div H < 2" using assms(2) by (rule less_mult_imp_div_less)
  then have e: "[1..<length series div H] = []" by simp
  show ?thesis
    unfolding cv_evaluate_def cv_splits_eq [OF H] e
    by (simp add: np_mean_def)
qed

theorem no_splits_mean_nan_witness:
  "(1::nat) \<le> 2 \<and> length [1, 2, 3::real] < 2 * 2
   \<and> cv_evaluate naive_forecast 2 [1, 2, 3] = Inr ([], NaN)"
proof -
  have a: "(1::nat) \<le> 2" and b: "length [1, 2, 3::real] < 2 * 2" by simp_all
  from no_splits_mean_nan [OF a b] show ?thesis using a b by blast
qed

text \<open>
  Claim C8 as stated fails: for a series of three values and \<open>H = 2\<close> the loop gives no
  split and the average method returns the empty list and the mean NaN, not an error.
\<close>

theorem no_splits_counterexample:
  "cv_splits 2 (length [1, 2, 3::real]) = Inr ([], [])
   \<and> avg_rmses 2 [1, 2, 3] = Inr ([], NaN)"
  by (simp add: avg_rmses_def cv_evaluate_def cv_splits_def np_mean_def)

section \<open>Numerical values\<close>

text \<open>
  Three properties of the notebook are not stated in this theory: that \<^verbatim>\<open>get_rmse\<close>
  equals the square root of the mean squared residual, that every element of the average
  forecast equals the arithmetic mean of the train values, and that all per-split errors
  on a constant series are zero. Each equates a number computed in float64 (or in int64,
  for an integer column) with a real-number expression, and whether the two agree is
  decided by rounding, by overflow and by the order in which pandas and numpy add: the
  float64 mean of three values 0.1 is 0.10000000000000002, the square of an int64
  residual of size \<open>4 * 10^9\<close> wraps to a negative number whose root is NaN, and a residual
  \<open>10^200\<close> squares to \<open>inf\<close>. The exact arithmetic of \<open>npfloat\<close> proves such an equation of
  the idealisation only, which says nothing of the code.
\<close>

end
